theory Spec2Isabelle
  imports Complex_Main
begin

section \<open>Dates and times as the datetime library computes them\<close>

text \<open>
  A naive \<^verbatim>\<open>datetime\<close> is kept as the number of wall-clock seconds that separate it
  from midnight of proleptic Gregorian ordinal 0: \<open>ordinal * 86400 + second of the day\<close>.
  The difference of two datetimes is a \<^verbatim>\<open>timedelta\<close>, a number of seconds, and its
  \<^verbatim>\<open>.days\<close> attribute is the floor of that number divided by 86400 (timedelta keeps
  \<open>0 \<le> seconds < 86400\<close>, so a negative difference rounds towards minus infinity).
\<close>

type_synonym datetime = int

definition is_leap :: "int \<Rightarrow> bool" where
  "is_leap y = (y mod 4 = 0 \<and> (y mod 100 \<noteq> 0 \<or> y mod 400 = 0))"

definition days_before_year :: "int \<Rightarrow> int" where
  "days_before_year y = (let y1 = y - 1 in y1 * 365 + y1 div 4 - y1 div 100 + y1 div 400)"

text \<open>The tables of the library are indexed by the month, from 1; index 0 is a placeholder.\<close>

definition DAYS_IN_MONTH :: "int list" where
  "DAYS_IN_MONTH = [- 1, 31, 28, 31, 30, 31, 30, 31, 31, 30, 31, 30, 31]"

definition DAYS_BEFORE_MONTH :: "int list" where
  "DAYS_BEFORE_MONTH = [- 1, 0, 31, 59, 90, 120, 151, 181, 212, 243, 273, 304, 334]"

definition days_in_month :: "int \<Rightarrow> int \<Rightarrow> int" where
  "days_in_month y m = (if m = 2 \<and> is_leap y then 29 else DAYS_IN_MONTH ! nat m)"

definition days_before_month :: "int \<Rightarrow> int \<Rightarrow> int" where
  "days_before_month y m = DAYS_BEFORE_MONTH ! nat m + (if m > 2 \<and> is_leap y then 1 else 0)"

definition ymd2ord :: "int \<Rightarrow> int \<Rightarrow> int \<Rightarrow> int" where
  "ymd2ord y m d = days_before_year y + days_before_month y m + d"

definition day_seconds :: int where
  "day_seconds = 24 * 60 * 60"

text \<open>Midnight of a calendar day.\<close>

definition midnight :: "int \<Rightarrow> int \<Rightarrow> int \<Rightarrow> datetime" where
  "midnight y m d = ymd2ord y m d * day_seconds"

text \<open>The constructor \<^verbatim>\<open>datetime(y, m, d)\<close>: a ValueError (here \<open>None\<close>) outside the calendar.\<close>

definition mk_datetime :: "int \<Rightarrow> int \<Rightarrow> int \<Rightarrow> datetime option" where
  "mk_datetime y m d =
     (if 1 \<le> y \<and> y \<le> 9999 \<and> 1 \<le> m \<and> m \<le> 12 \<and> 1 \<le> d \<and> d \<le> days_in_month y m
      then Some (midnight y m d) else None)"

text \<open>\<^verbatim>\<open>(a - b).days\<close>\<close>

definition days :: "datetime \<Rightarrow> datetime \<Rightarrow> int" where
  "days a b = (a - b) div day_seconds"

text \<open>The calendar day of an ordinal: year, month, day.\<close>

definition ord2ymd :: "int \<Rightarrow> int \<times> int \<times> int" where
  "ord2ymd n =
     (let a = n - 1;
          n400 = a div 146097; b = a mod 146097;
          n100 = b div 36524; c = b mod 36524;
          n4 = c div 1461; d = c mod 1461;
          n1 = d div 365; f = d mod 365;
          year = n400 * 400 + 1 + n100 * 100 + n4 * 4 + n1
      in if n1 = 4 \<or> n100 = 4 then (year - 1, 12, 31)
         else
           (let leapyear = (n1 = 3 \<and> (n4 \<noteq> 24 \<or> n100 = 3));
                month = (f + 50) div 32;
                preceding = DAYS_BEFORE_MONTH ! nat month
                              + (if month > 2 \<and> leapyear then 1 else 0)
            in if preceding > f
               then (let month' = month - 1;
                         preceding' = preceding - (DAYS_IN_MONTH ! nat month'
                                        + (if month' = 2 \<and> leapyear then 1 else 0))
                     in (year, month', f - preceding' + 1))
               else (year, month, f - preceding + 1)))"

text \<open>
  The text of a midnight in an index of dates, \<^verbatim>\<open>YYYY-MM-DD\<close>, as \<^verbatim>\<open>astype(str)\<close>
  writes it.
\<close>

definition digit_char :: "int \<Rightarrow> char" where
  "digit_char k = char_of (nat (48 + k mod 10))"

definition pad2 :: "int \<Rightarrow> string" where
  "pad2 k = [digit_char (k div 10), digit_char k]"

definition pad4 :: "int \<Rightarrow> string" where
  "pad4 k = [digit_char (k div 1000), digit_char (k div 100), digit_char (k div 10), digit_char k]"

definition iso_date :: "datetime \<Rightarrow> string" where
  "iso_date t =
     (case ord2ymd (t div day_seconds) of
        (y, m, d) \<Rightarrow> pad4 y @ ''-'' @ pad2 m @ ''-'' @ pad2 d)"

subsection \<open>strptime\<close>

text \<open>
  \<^verbatim>\<open>datetime.strptime\<close> turns the directives of its format into the regular expressions
  \<^verbatim>\<open>%Y = \d\d\d\d\<close>, \<^verbatim>\<open>%m = 1[0-2]|0[1-9]|[1-9]\<close> and
  \<^verbatim>\<open>%d = 3[01]|[12]\d|0[1-9]|[1-9]| [1-9]\<close>, matches them from the left and raises
  ValueError when the text does not match, when text remains, or when the fields are no
  calendar day. Each function below consumes one field and returns the rest of the text.
\<close>

definition is_digit :: "char \<Rightarrow> bool" where
  "is_digit c = (48 \<le> (of_char c :: nat) \<and> (of_char c :: nat) \<le> 57)"

definition digit :: "char \<Rightarrow> int" where
  "digit c = int (of_char c) - 48"

fun re_Y :: "string \<Rightarrow> (int \<times> string) option" where
  "re_Y (a # b # c # d # r) =
     (if is_digit a \<and> is_digit b \<and> is_digit c \<and> is_digit d
      then Some (digit a * 1000 + digit b * 100 + digit c * 10 + digit d, r) else None)"
| "re_Y _ = None"

fun re_m :: "string \<Rightarrow> (int \<times> string) option" where
  "re_m [] = None"
| "re_m [a] = (if is_digit a \<and> a \<noteq> CHR ''0'' then Some (digit a, []) else None)"
| "re_m (a # b # r) =
     (if a = CHR ''1'' \<and> (b = CHR ''0'' \<or> b = CHR ''1'' \<or> b = CHR ''2'')
        then Some (10 + digit b, r)
      else if a = CHR ''0'' \<and> is_digit b \<and> b \<noteq> CHR ''0'' then Some (digit b, r)
      else if is_digit a \<and> a \<noteq> CHR ''0'' then Some (digit a, b # r)
      else None)"

fun re_d :: "string \<Rightarrow> (int \<times> string) option" where
  "re_d [] = None"
| "re_d [a] = (if is_digit a \<and> a \<noteq> CHR ''0'' then Some (digit a, []) else None)"
| "re_d (a # b # r) =
     (if a = CHR ''3'' \<and> (b = CHR ''0'' \<or> b = CHR ''1'') then Some (30 + digit b, r)
      else if (a = CHR ''1'' \<or> a = CHR ''2'') \<and> is_digit b then Some (digit a * 10 + digit b, r)
      else if a = CHR ''0'' \<and> is_digit b \<and> b \<noteq> CHR ''0'' then Some (digit b, r)
      else if is_digit a \<and> a \<noteq> CHR ''0'' then Some (digit a, b # r)
      else if a = CHR '' '' \<and> is_digit b \<and> b \<noteq> CHR ''0'' then Some (digit b, r)
      else None)"

text \<open>The literal \<^verbatim>\<open>-\<close> of the formats.\<close>

fun dash :: "string \<Rightarrow> string option" where
  "dash [] = None"
| "dash (c # r) = (if c = CHR ''-'' then Some r else None)"

text \<open>\<^verbatim>\<open>datetime.strptime(s, '%Y-%m-%d')\<close>\<close>

definition strptime_Ymd :: "string \<Rightarrow> datetime option" where
  "strptime_Ymd s =
     (case re_Y s of None \<Rightarrow> None | Some (y, r1) \<Rightarrow>
      (case dash r1 of None \<Rightarrow> None | Some r2 \<Rightarrow>
      (case re_m r2 of None \<Rightarrow> None | Some (m, r3) \<Rightarrow>
      (case dash r3 of None \<Rightarrow> None | Some r4 \<Rightarrow>
      (case re_d r4 of None \<Rightarrow> None | Some (d, r5) \<Rightarrow>
         if r5 = [] then mk_datetime y m d else None)))))"

text \<open>\<^verbatim>\<open>datetime.strptime(s, '%d-%m-%Y')\<close>\<close>

definition strptime_dmY :: "string \<Rightarrow> datetime option" where
  "strptime_dmY s =
     (case re_d s of None \<Rightarrow> None | Some (d, r1) \<Rightarrow>
      (case dash r1 of None \<Rightarrow> None | Some r2 \<Rightarrow>
      (case re_m r2 of None \<Rightarrow> None | Some (m, r3) \<Rightarrow>
      (case dash r3 of None \<Rightarrow> None | Some r4 \<Rightarrow>
      (case re_Y r4 of None \<Rightarrow> None | Some (y, r5) \<Rightarrow>
         if r5 = [] then mk_datetime y m d else None)))))"

section \<open>Python and numpy operations used by the program\<close>

text \<open>
  A slice \<^verbatim>\<open>xs[lo:hi]\<close>: a missing bound is the end of the list on its side, a negative
  bound counts from the end, and every bound is clamped to the list.
\<close>

definition py_slice :: "'a list \<Rightarrow> int option \<Rightarrow> int option \<Rightarrow> 'a list" where
  "py_slice xs lo hi =
     (let n = int (length xs);
          norm = (\<lambda>i. if i < 0 then max 0 (n + i) else min n i);
          a = (case lo of None \<Rightarrow> 0 | Some i \<Rightarrow> norm i);
          b = (case hi of None \<Rightarrow> n | Some i \<Rightarrow> norm i)
      in take (nat (b - a)) (drop (nat a) xs))"

text \<open>\<^verbatim>\<open>xs[::3]\<close>\<close>

fun every_third :: "'a list \<Rightarrow> 'a list" where
  "every_third [] = []"
| "every_third (v # vs) = v # every_third (drop 2 vs)"

text \<open>\<^verbatim>\<open>list(range(start, stop, step))\<close> for a positive step.\<close>

definition py_range :: "int \<Rightarrow> int \<Rightarrow> int \<Rightarrow> int list" where
  "py_range start stop step =
     map (\<lambda>k. start + int k * step) [0..<nat ((stop - start + step - 1) div step)]"

text \<open>\<^verbatim>\<open>[d.days for d in np.diff(np.array(dates))]\<close>: the day counts between neighbours.\<close>

fun diff_days :: "datetime list \<Rightarrow> int list" where
  "diff_days (a # b # r) = days b a # diff_days (b # r)"
| "diff_days _ = []"

text \<open>\<^verbatim>\<open>.cumsum()\<close>, with the running total made explicit.\<close>

fun cumsum_from :: "int \<Rightarrow> int list \<Rightarrow> int list" where
  "cumsum_from acc [] = []"
| "cumsum_from acc (v # vs) = (acc + v) # cumsum_from (acc + v) vs"

definition cumsum :: "int list \<Rightarrow> int list" where
  "cumsum vs = cumsum_from 0 vs"

text \<open>
  A value of the store is a float: the mean that the pivot table took, or NaN where a
  county has no record on a date of the index. Finite floats are kept as rationals.
\<close>

datatype cell = Val rat | NaN

text \<open>\<^verbatim>\<open>.mean()\<close> of an integer array; NaN on an empty one.\<close>

definition np_mean :: "int list \<Rightarrow> cell" where
  "np_mean vs = (if vs = [] then NaN else Val (of_int (sum_list vs) / of_int (int (length vs))))"

datatype error =
    KeyError string
  | IndexError
  | ValueError
  | TypeError
  | LinAlgError
  | OSError
  | RestApiError int

text \<open>
  What the program takes from its platform and its libraries, as parameters:
  \<^item> \<open>str_upper\<close> is \<^verbatim>\<open>str.upper\<close>;
  \<^item> \<open>timestamp\<close> is \<^verbatim>\<open>int(d.timestamp())\<close> of a naive datetime, which reads \<open>d\<close> as
    local time of the process's time zone, and \<open>fromtimestamp\<close> is
    \<^verbatim>\<open>datetime.fromtimestamp\<close>, which gives local time again; both raise outside the
    platform's range (\<open>None\<close>);
  \<^item> \<open>lstsq\<close> is the answer of numpy's least-squares solver inside \<^verbatim>\<open>np.polyfit\<close>: the
    coefficients, highest degree first (for fewer points than coefficients the
    minimum-norm solution, given with a RankWarning), or \<open>None\<close> where the solver raises
    LinAlgError (powers of \<open>x\<close> that overflow a float, no convergence), and \<open>polyval\<close>
    evaluates \<^verbatim>\<open>np.poly1d\<close> at a point;
  \<^item> \<open>nan_to_int\<close> is the integer that \<^verbatim>\<open>astype(int)\<close> makes of NaN;
  \<^item> \<open>pd_timestamp\<close> is the date that pandas reads in a text when a column of dates is
    compared with it (\<open>None\<close> when it reads none and the comparison raises TypeError).
\<close>

record env =
  str_upper :: "string \<Rightarrow> string"
  timestamp :: "datetime \<Rightarrow> int option"
  fromtimestamp :: "int \<Rightarrow> datetime option"
  lstsq :: "int list \<Rightarrow> int list \<Rightarrow> int \<Rightarrow> rat list option"
  polyval :: "rat list \<Rightarrow> int \<Rightarrow> rat"
  nan_to_int :: int
  pd_timestamp :: "string \<Rightarrow> datetime option"

text \<open>\<^verbatim>\<open>astype(int)\<close> truncates a float towards zero.\<close>

definition astype_int :: "env \<Rightarrow> cell \<Rightarrow> int" where
  "astype_int e c =
     (case c of Val r \<Rightarrow> (if 0 \<le> r then \<lfloor>r\<rfloor> else \<lceil>r\<rceil>) | NaN \<Rightarrow> nan_to_int e)"

text \<open>
  \<^verbatim>\<open>np.polyfit(x, y, deg)\<close>. First its argument checks, in its order. Then the columns of
  the Vandermonde matrix, the powers \<open>deg\<close> down to 0 of \<open>x\<close>, are divided by their norms
  with no guard against a norm of 0: when every \<open>x\<close> is 0 and \<open>deg\<close> is at least 1 a column
  is all zeros, the division gives NaN, and the solver raises LinAlgError on it. Otherwise
  the solver answers or raises. The number of points is nowhere compared with the degree.
\<close>

definition polyfit :: "env \<Rightarrow> int list \<Rightarrow> int list \<Rightarrow> int \<Rightarrow> error + rat list" where
  "polyfit e xs ys deg =
     (if deg < 0 then Inl ValueError
      else if xs = [] then Inl TypeError
      else if length xs \<noteq> length ys then Inl TypeError
      else if 1 \<le> deg \<and> list_all (\<lambda>v. v = 0) xs then Inl LinAlgError
      else case lstsq e xs ys deg of None \<Rightarrow> Inl LinAlgError | Some z \<Rightarrow> Inr z)"

section \<open>The application\<close>

text \<open>
  One county of \<^verbatim>\<open>self.data\<close> is a dict from the date, written \<^verbatim>\<open>YYYY-MM-DD\<close>, to the
  daily cases, in the order of the pivot table's index; the store maps each county name
  to its dict.
\<close>

type_synonym series = "(string \<times> cell) list"

type_synonym store = "string \<rightharpoonup> series"

record app =
  start_date :: string
  end_date :: string
  headers :: string
  district :: string
  data :: store

text \<open>
  \<^verbatim>\<open>plotData\<close> returns nothing and draws. Its drawing is kept as a record of what it hands
  to the plotting library: the dates and the axis \<open>plot_x\<close>, the cases \<open>plot_y\<close>, the two
  arguments and the result of \<^verbatim>\<open>np.polyfit\<close>, the position of the vertical line
  (\<open>None\<close> when no line is drawn), the predicted points and the tick positions. The curve
  through 100 interpolated points, the tick labels, the legend and the title are left out.
\<close>

record plot =
  plot_dates :: "datetime list"
  plot_x :: "int list"
  plot_y :: "int list"
  fit_x :: "int list"
  fit_y :: "int list"
  coefficients :: "rat list"
  axvline :: "cell option"
  predicted :: "(int list \<times> rat list) option"
  x_ticks :: "int list"

definition month_diff :: int where
  "month_diff = 1 * 30 * 24 * 60 * 60"

text \<open>Lines 131 to 141: the dates of the predictions, appended to the observed ones.\<close>

definition new_dates :: "env \<Rightarrow> datetime list \<Rightarrow> int \<Rightarrow> error + datetime list" where
  "new_dates e dates predictions =
     (if predictions > 0 then
        (if dates = [] then Inl IndexError
         else case timestamp e (last dates) of
           None \<Rightarrow> Inl OSError
         | Some last_date_ts \<Rightarrow>
             (let new_dates_ts =
                    py_range (last_date_ts + month_diff)
                      (last_date_ts + (predictions + 1) * month_diff) month_diff
              in case those (map (fromtimestamp e) new_dates_ts) of
                   None \<Rightarrow> Inl OSError
                 | Some ds \<Rightarrow> Inr (dates @ ds)))
      else Inr dates)"

text \<open>Lines 144 and 145: the axis of day counts.\<close>

definition xaxis :: "datetime list \<Rightarrow> int list" where
  "xaxis dates = cumsum (0 # diff_days dates)"

text \<open>Lines 161 to 165: where the line between confirmed and predicted cases is drawn.\<close>

definition split_line :: "int list \<Rightarrow> int \<Rightarrow> cell option" where
  "split_line x predictions =
     (if predictions > 1
        then Some (np_mean (py_slice x (Some (- predictions - 1)) (Some (- predictions + 1))))
      else if predictions = 1 then Some (np_mean (py_slice x (Some (- 2)) None))
      else None)"

definition plotData_result :: "env \<Rightarrow> store \<Rightarrow> string \<Rightarrow> int \<Rightarrow> int \<Rightarrow> error + plot" where
  "plotData_result e dat county degree predictions =
     (case dat (str_upper e county) of
        None \<Rightarrow> Inl (KeyError (str_upper e county))
      | Some ser \<Rightarrow>
     (case those (map (\<lambda>kv. strptime_Ymd (fst kv)) ser) of
        None \<Rightarrow> Inl ValueError
      | Some dates0 \<Rightarrow>
     (case new_dates e dates0 predictions of
        Inl err \<Rightarrow> Inl err
      | Inr dates \<Rightarrow>
     (let x = xaxis dates in
      case dat county of
        None \<Rightarrow> Inl (KeyError county)
      | Some vals \<Rightarrow>
     (let y = map (\<lambda>kv. astype_int e (snd kv)) vals;
          xo = (if predictions > 0 then py_slice x None (Some (- predictions)) else x)
      in case polyfit e xo y degree of
        Inl err \<Rightarrow> Inl err
      | Inr z \<Rightarrow>
          Inr \<lparr> plot_dates = dates, plot_x = x, plot_y = y, fit_x = xo, fit_y = y,
                coefficients = z,
                axvline = split_line x predictions,
                predicted =
                  (if predictions > 0
                   then (let xp = py_slice x (Some (- predictions)) None
                         in Some (xp, map (polyval e z) xp))
                   else None),
                x_ticks =
                  (if predictions > 0
                   then every_third (py_slice x None (Some (- predictions)))
                          @ py_slice x (Some (- predictions)) None
                   else every_third x) \<rparr>)))))"

text \<open>
  The method on the application object. It assigns no attribute of \<^verbatim>\<open>self\<close>; the list it
  extends with the new dates is its own.
\<close>

definition plotData :: "env \<Rightarrow> app \<Rightarrow> string \<Rightarrow> int \<Rightarrow> int \<Rightarrow> (error + plot) \<times> app" where
  "plotData e self county degree predictions =
     (plotData_result e (data self) county degree predictions, self)"

subsection \<open>getInfo\<close>

text \<open>
  One entry of the API's answer, with the four columns that \<^verbatim>\<open>getInfo\<close> reads, and the
  answer itself: the status of the request and the entries of its JSON body.
\<close>

record entry =
  e_data :: string
  e_distrito :: string
  e_concelho :: string
  e_confirmados_1 :: int

record response =
  status_code :: int
  json :: "entry list"

text \<open>
  A row of the frame once the columns are selected and renamed: date, county, daily cases.
\<close>

type_synonym row = "datetime \<times> string \<times> int"

text \<open>
  One cell of \<^verbatim>\<open>pivot_table(index=['date'], columns='county', values='daily_cases')\<close>.
  No \<^verbatim>\<open>aggfunc\<close> is given, so the cell is the mean of the daily cases of all rows of
  that date and county, and NaN when there is no such row.
\<close>

definition pivot_cell :: "row list \<Rightarrow> datetime \<Rightarrow> string \<Rightarrow> cell" where
  "pivot_cell rows t county =
     (let vs = map (\<lambda>r. snd (snd r)) (filter (\<lambda>r. fst r = t \<and> fst (snd r) = county) rows)
      in if vs = [] then NaN else Val (of_int (sum_list vs) / of_int (int (length vs))))"

text \<open>
  The table as \<^verbatim>\<open>to_dict()\<close> gives it, after the index became text: one dict for each
  county that has a row, over all dates of the index in ascending order.
\<close>

definition pivot_table :: "row list \<Rightarrow> store" where
  "pivot_table rows =
     (let index = sort (remdups (map fst rows))
      in (\<lambda>county. if county \<in> set (map (\<lambda>r. fst (snd r)) rows)
                    then Some (map (\<lambda>t. (iso_date t, pivot_cell rows t county)) index)
                    else None))"

text \<open>
  The method, given the answer of the request. \<^verbatim>\<open>self.district\<close> is assigned first and
  stays assigned when an exception follows; the result pairs the exception, if any, with
  the object. A frame made of no entries has no column, so reading its column
  \<^verbatim>\<open>data\<close> raises KeyError. The two bounds of the range are parsed, and the range is
  then tested against the texts of the bounds themselves, which pandas reads its own
  way. The file \<^verbatim>\<open>data.json\<close> holds the same table and is not modelled.
\<close>

definition getInfo :: "env \<Rightarrow> response \<Rightarrow> app \<Rightarrow> bool \<Rightarrow> string \<Rightarrow> error option \<times> app" where
  "getInfo e r self0 save_json distr =
     (let self = self0\<lparr>district := distr\<rparr> in
      if status_code r \<noteq> 200 then (Some (RestApiError (status_code r)), self)
      else
     (case strptime_dmY (start_date self) of
        None \<Rightarrow> (Some ValueError, self)
      | Some start \<Rightarrow>
     (case strptime_dmY (end_date self) of
        None \<Rightarrow> (Some ValueError, self)
      | Some end \<Rightarrow>
     (if json r = [] then (Some (KeyError ''data''), self)
      else
     (case those (map (\<lambda>en. strptime_dmY (e_data en)) (json r)) of
        None \<Rightarrow> (Some ValueError, self)
      | Some ts \<Rightarrow>
     (let df = filter (\<lambda>(t, en). e_distrito en = str_upper e distr) (zip ts (json r)) in
     (case pd_timestamp e (start_date self) of
        None \<Rightarrow> (Some TypeError, self)
      | Some lo \<Rightarrow>
     (case pd_timestamp e (end_date self) of
        None \<Rightarrow> (Some TypeError, self)
      | Some hi \<Rightarrow>
     (let df2 = filter (\<lambda>(t, en). t \<ge> lo \<and> t \<le> hi) df;
          rows = map (\<lambda>(t, en). (t, e_concelho en, e_confirmados_1 en)) df2
      in (None, self\<lparr>data := pivot_table rows\<rparr>))))))))))"

subsection \<open>Platforms to run it on\<close>

text \<open>\<^verbatim>\<open>str.upper\<close> on ASCII text.\<close>

definition ascii_upper :: "string \<Rightarrow> string" where
  "ascii_upper s =
     map (\<lambda>c. if 97 \<le> (of_char c :: nat) \<and> (of_char c :: nat) \<le> 122
              then char_of ((of_char c :: nat) - 32) else c) s"

definition epoch :: datetime where
  "epoch = midnight 1970 1 1"

definition in_calendar :: "datetime \<Rightarrow> bool" where
  "in_calendar d = (midnight 1 1 1 \<le> d \<and> d < midnight 10000 1 1)"

text \<open>Horner's rule, highest degree first.\<close>

definition horner :: "rat list \<Rightarrow> int \<Rightarrow> rat" where
  "horner z v = foldl (\<lambda>acc c. acc * of_int v + c) 0 z"

text \<open>
  A solver for the examples. It raises where a power of an \<open>x\<close> is beyond the range of a
  float, and answers otherwise; its answer stands for the coefficients, which no theorem
  reads: the general theorems hold for every solver.
\<close>

definition example_solver :: "int list \<Rightarrow> int list \<Rightarrow> int \<Rightarrow> rat list option" where
  "example_solver xs ys deg =
     (if list_ex (\<lambda>v. 2 ^ 1024 \<le> \<bar>v\<bar> ^ nat deg) xs then None
      else Some (replicate (nat (deg + 1)) 0))"

text \<open>
  pandas reads a text \<^verbatim>\<open>a-b-YYYY\<close> with the month first, and with the day first when
  that gives no date.
\<close>

definition strptime_mdY :: "string \<Rightarrow> datetime option" where
  "strptime_mdY s =
     (case re_m s of None \<Rightarrow> None | Some (m, r1) \<Rightarrow>
      (case dash r1 of None \<Rightarrow> None | Some r2 \<Rightarrow>
      (case re_d r2 of None \<Rightarrow> None | Some (d, r3) \<Rightarrow>
      (case dash r3 of None \<Rightarrow> None | Some r4 \<Rightarrow>
      (case re_Y r4 of None \<Rightarrow> None | Some (y, r5) \<Rightarrow>
         if r5 = [] then mk_datetime y m d else None)))))"

definition month_first :: "string \<Rightarrow> datetime option" where
  "month_first s = (case strptime_mdY s of Some t \<Rightarrow> Some t | None \<Rightarrow> strptime_dmY s)"

text \<open>A process whose time zone is UTC.\<close>

definition utc :: env where
  "utc = \<lparr> str_upper = ascii_upper,
           timestamp = (\<lambda>d. if in_calendar d then Some (d - epoch) else None),
           fromtimestamp = (\<lambda>t. if in_calendar (t + epoch) then Some (t + epoch) else None),
           lstsq = example_solver, polyval = horner, nan_to_int = - (2 ^ 63),
              pd_timestamp = month_first \<rparr>"

text \<open>
  A process in the zone Europe/Lisbon during 2021: local time is UTC+1 from
  2021-03-28 01:00 UTC until 2021-10-31 01:00 UTC and UTC otherwise.
\<close>

definition dst_begin :: int where
  "dst_begin = midnight 2021 3 28 - epoch + 3600"

definition dst_end :: int where
  "dst_end = midnight 2021 10 31 - epoch + 3600"

definition lisbon_offset :: "int \<Rightarrow> int" where
  "lisbon_offset t = (if dst_begin \<le> t \<and> t < dst_end then 3600 else 0)"

definition lisbon :: env where
  "lisbon = \<lparr> str_upper = ascii_upper,
              timestamp = (\<lambda>d. if in_calendar d
                 then Some (let w = d - epoch
                            in if dst_begin + 3600 \<le> w \<and> w < dst_end + 3600 then w - 3600 else w)
                 else None),
              fromtimestamp = (\<lambda>t. if in_calendar (t + lisbon_offset t + epoch)
                 then Some (t + lisbon_offset t + epoch) else None),
              lstsq = example_solver, polyval = horner, nan_to_int = - (2 ^ 63),
              pd_timestamp = month_first \<rparr>"

subsection \<open>Stores to run it on\<close>

definition series_three :: series where
  "series_three = [(''2021-01-01'', Val 5), (''2021-01-03'', Val 7), (''2021-01-10'', Val 9)]"

definition store_three :: store where
  "store_three = [''BRAGA'' \<mapsto> series_three]"

definition dates_three :: "datetime list" where
  "dates_three = [midnight 2021 1 1, midnight 2021 1 3, midnight 2021 1 10]"

definition series_october :: series where
  "series_october = [(''2021-10-14'', Val 5), (''2021-10-15'', Val 7)]"

definition store_october :: store where
  "store_october = [''BRAGA'' \<mapsto> series_october]"




definition dates_october :: "datetime list" where
  "dates_october = [midnight 2021 10 14, midnight 2021 10 15]"

definition app_three :: app where
  "app_three = \<lparr> start_date = ''01-01-2021'', end_date = ''31-12-2021'', headers = [],
                  district = ''Braga'', data = store_three \<rparr>"


definition entry_braga_5 :: entry where
  "entry_braga_5 = \<lparr> e_data = ''01-01-2021'', e_distrito = ''BRAGA'', e_concelho = ''BRAGA'',
                      e_confirmados_1 = 5 \<rparr>"

definition entry_braga_10 :: entry where
  "entry_braga_10 = \<lparr> e_data = ''01-01-2021'', e_distrito = ''BRAGA'', e_concelho = ''BRAGA'',
                       e_confirmados_1 = 10 \<rparr>"

definition entry_beja :: entry where
  "entry_beja = \<lparr> e_data = ''03-01-2021'', e_distrito = ''BEJA'', e_concelho = ''BEJA'',
                   e_confirmados_1 = 7 \<rparr>"

definition response_twice :: response where
  "response_twice = \<lparr> status_code = 200, json = [entry_braga_5, entry_braga_10] \<rparr>"

definition response_beja :: response where
  "response_beja = \<lparr> status_code = 200, json = [entry_beja] \<rparr>"

definition response_empty :: response where
  "response_empty = \<lparr> status_code = 200, json = [] \<rparr>"

section \<open>Properties of the axis of day counts\<close>

lemma length_cumsum_from: "length (cumsum_from a vs) = length vs"
  by (induction vs arbitrary: a) auto

lemma cumsum_from_append:
  "cumsum_from a (us @ vs) = cumsum_from a us @ cumsum_from (a + sum_list us) vs"
  by (induction us arbitrary: a) (auto simp: add.assoc)

lemma cumsum_from_nth:
  "i < length vs \<Longrightarrow>
   cumsum_from a vs ! i = (if i = 0 then a else cumsum_from a vs ! (i - 1)) + vs ! i"
proof (induction vs arbitrary: a i)
  case Nil
  then show ?case by simp
next
  case (Cons v vs)
  show ?case
  proof (cases i)
    case 0
    then show ?thesis by simp
  next
    case (Suc j)
    with Cons.prems have j: "j < length vs" by simp
    from Cons.IH [OF j, of "a + v"] Suc show ?thesis
      by (cases j) auto
  qed
qed

lemma length_diff_days: "length (diff_days ds) = length ds - 1"
  by (induction ds rule: diff_days.induct) auto

lemma diff_days_nth:
  "Suc i < length ds \<Longrightarrow> diff_days ds ! i = days (ds ! Suc i) (ds ! i)"
proof (induction ds arbitrary: i rule: diff_days.induct)
  case (1 a b r)
  then show ?case by (cases i) auto
qed auto

lemma diff_days_append:
  "ds \<noteq> [] \<Longrightarrow> diff_days (ds @ fs) = diff_days ds @ diff_days (last ds # fs)"
proof (induction ds)
  case Nil
  then show ?case by simp
next
  case (Cons a ds)
  show ?case
  proof (cases ds)
    case Nil
    then show ?thesis by simp
  next
    case (Cons b r)
    with Cons.IH show ?thesis by simp
  qed
qed

lemma length_xaxis: "length (xaxis ds) = Suc (length ds - 1)"
  by (simp add: xaxis_def cumsum_def length_cumsum_from length_diff_days)

lemma length_xaxis_nonempty: "ds \<noteq> [] \<Longrightarrow> length (xaxis ds) = length ds"
  by (cases ds) (simp_all add: length_xaxis)

lemma xaxis_append:
  "ds \<noteq> [] \<Longrightarrow>
   xaxis (ds @ fs) = xaxis ds @ cumsum_from (sum_list (diff_days ds)) (diff_days (last ds # fs))"
  by (simp add: xaxis_def cumsum_def diff_days_append cumsum_from_append)

lemma xaxis_0: "xaxis ds ! 0 = 0"
  by (simp add: xaxis_def cumsum_def)

lemma xaxis_step:
  assumes "1 \<le> i" and "i < length ds"
  shows "xaxis ds ! i = xaxis ds ! (i - 1) + days (ds ! i) (ds ! (i - 1))"
proof -
  from assms obtain j where j: "i = Suc j" by (cases i) auto
  with assms have lt: "Suc j < length ds" by simp
  then have "i < length (0 # diff_days ds)" using j by (simp add: length_diff_days)
  from cumsum_from_nth [OF this, of 0] j
  have "xaxis ds ! i = xaxis ds ! j + diff_days ds ! j"
    by (simp add: xaxis_def cumsum_def)
  with diff_days_nth [OF lt] j show ?thesis by simp
qed

lemma those_length: "those xs = Some ys \<Longrightarrow> length ys = length xs"
  by (induction xs arbitrary: ys) (auto split: option.splits)

lemma those_nth: "those xs = Some ys \<Longrightarrow> i < length xs \<Longrightarrow> xs ! i = Some (ys ! i)"
proof (induction xs arbitrary: ys i)
  case Nil
  then show ?case by simp
next
  case (Cons x xs)
  then show ?case by (cases i) (auto split: option.splits)
qed

lemma length_py_range_month:
  "0 < p \<Longrightarrow> length (py_range (t + month_diff) (t + (p + 1) * month_diff) month_diff) = nat p"
proof -
  have "(t + (p + 1) * month_diff - (t + month_diff) + month_diff - 1) div month_diff
        = (p * 2592000 + 2592000 - 1) div 2592000"
    by (simp add: month_diff_def algebra_simps)
  also have "\<dots> = p" by linarith
  finally show ?thesis by (simp add: py_range_def)
qed

lemma py_range_month_nth:
  "k < nat p \<Longrightarrow> 0 < p \<Longrightarrow>
   py_range (t + month_diff) (t + (p + 1) * month_diff) month_diff ! k = t + (int k + 1) * month_diff"
  using length_py_range_month [of p t]
  by (simp add: py_range_def algebra_simps)

lemma py_slice_drop_last:
  "0 < p \<Longrightarrow> py_slice xs None (Some (- p)) = take (length xs - nat p) xs"
  by (auto simp: py_slice_def Let_def max_def nat_diff_distrib' intro: arg_cong2 [where f = take])

lemma py_slice_keep_last:
  "0 < p \<Longrightarrow> py_slice xs (Some (- p)) None = drop (length xs - nat p) xs"
  by (auto simp: py_slice_def Let_def max_def nat_diff_distrib')

section \<open>Properties of plotData\<close>

lemma new_dates_Inr:
  assumes "new_dates e ds p = Inr dates"
  shows "\<exists>fs. dates = ds @ fs \<and> length fs = nat p" and "0 < p \<Longrightarrow> ds \<noteq> []"
  using assms
  by (auto simp: new_dates_def Let_def length_py_range_month
           split: if_splits option.splits dest!: those_length)

lemma new_dates_future:
  assumes "new_dates e ds p = Inr dates" and "0 < p" and "k < nat p"
  shows "\<exists>ts. timestamp e (last ds) = Some ts \<and>
           fromtimestamp e (ts + (int k + 1) * month_diff) = Some (dates ! (length ds + k))"
proof -
  from assms(1,2) obtain ts fs where ts: "timestamp e (last ds) = Some ts"
    and fs: "those (map (fromtimestamp e)
               (py_range (ts + month_diff) (ts + (p + 1) * month_diff) month_diff)) = Some fs"
    and dates: "dates = ds @ fs"
    by (auto simp: new_dates_def Let_def split: if_splits option.splits)
  have "map (fromtimestamp e)
          (py_range (ts + month_diff) (ts + (p + 1) * month_diff) month_diff) ! k = Some (fs ! k)"
    using those_nth [OF fs, of k] assms(2,3) by (simp add: length_py_range_month)
  then have "fromtimestamp e (ts + (int k + 1) * month_diff) = Some (fs ! k)"
    using assms(2,3) by (simp add: length_py_range_month py_range_month_nth)
  with ts dates show ?thesis by (simp add: nth_append)
qed

lemma polyfit_Inr:
  "polyfit e xs ys deg = Inr z \<Longrightarrow>
   0 \<le> deg \<and> xs \<noteq> [] \<and> length xs = length ys \<and> lstsq e xs ys deg = Some z"
  by (auto simp: polyfit_def split: if_splits option.splits)

lemma polyfit_Inl:
  "polyfit e xs ys deg = Inl err \<Longrightarrow> 0 \<le> deg \<Longrightarrow> xs \<noteq> [] \<Longrightarrow> length xs = length ys \<Longrightarrow>
   err = LinAlgError"
  by (auto simp: polyfit_def split: if_splits option.splits)

lemma plotData_result_Inr:
  assumes "plotData_result e dat county degree p = Inr r"
  shows "\<exists>ser ds dates vals.
           dat (str_upper e county) = Some ser
         \<and> those (map (\<lambda>kv. strptime_Ymd (fst kv)) ser) = Some ds
         \<and> new_dates e ds p = Inr dates
         \<and> dat county = Some vals
         \<and> polyfit e (if p > 0 then py_slice (xaxis dates) None (Some (- p)) else xaxis dates)
              (map (\<lambda>kv. astype_int e (snd kv)) vals) degree = Inr (coefficients r)
         \<and> plot_dates r = dates
         \<and> plot_x r = xaxis dates
         \<and> plot_y r = map (\<lambda>kv. astype_int e (snd kv)) vals
         \<and> fit_x r = (if p > 0 then py_slice (xaxis dates) None (Some (- p)) else xaxis dates)
         \<and> fit_y r = map (\<lambda>kv. astype_int e (snd kv)) vals
         \<and> axvline r = split_line (xaxis dates) p"
  using assms
  by (auto simp: plotData_result_def Let_def split: option.splits sum.splits)

lemma observed_slice:
  assumes "new_dates e ds p = Inr dates"
  shows "(if p > 0 then py_slice (xaxis dates) None (Some (- p)) else xaxis dates) = xaxis ds"
proof (cases "0 < p")
  case True
  from new_dates_Inr [OF assms] True obtain fs
    where fs: "dates = ds @ fs" "length fs = nat p" and ne: "ds \<noteq> []" by blast
  have "length (xaxis dates) - nat p = length (xaxis ds)"
    using fs ne by (simp add: length_xaxis_nonempty)
  then show ?thesis
    using True fs ne by (simp add: py_slice_drop_last xaxis_append)
next
  case False
  with new_dates_Inr(1) [OF assms] show ?thesis by simp
qed

lemma length_plot_axis:
  assumes "new_dates e ds p = Inr dates"
  shows "length (xaxis dates) = length (xaxis ds) + nat p"
proof (cases "0 < p")
  case True
  from new_dates_Inr [OF assms] True obtain fs
    where fs: "dates = ds @ fs" "length fs = nat p" and ne: "ds \<noteq> []" by blast
  then show ?thesis by (simp add: length_xaxis_nonempty)
next
  case False
  with new_dates_Inr(1) [OF assms] show ?thesis by simp
qed

lemma xaxis_prefix:
  assumes "new_dates e ds p = Inr dates"
  shows "take (length (xaxis ds)) (xaxis dates) = xaxis ds"
proof (cases "0 < p")
  case True
  from new_dates_Inr [OF assms] True obtain fs
    where fs: "dates = ds @ fs" and ne: "ds \<noteq> []" by blast
  then show ?thesis by (simp add: xaxis_append)
next
  case False
  with new_dates_Inr(1) [OF assms] show ?thesis by simp
qed

lemma plotData_result_succeeds:
  assumes "dat (str_upper e county) = Some ser"
    and "those (map (\<lambda>kv. strptime_Ymd (fst kv)) ser) = Some ds"
    and "new_dates e ds p = Inr dates"
    and "dat county = Some vals"
    and "polyfit e (xaxis ds) (map (\<lambda>kv. astype_int e (snd kv)) vals) degree = Inr z"
  shows "\<exists>r. plotData_result e dat county degree p = Inr r"
  using observed_slice [OF assms(3)] assms
  by (simp add: plotData_result_def Let_def)

lemma plotData_result_fit_fails:
  assumes "dat (str_upper e county) = Some ser"
    and "those (map (\<lambda>kv. strptime_Ymd (fst kv)) ser) = Some ds"
    and "new_dates e ds p = Inr dates"
    and "dat county = Some vals"
    and "polyfit e (xaxis ds) (map (\<lambda>kv. astype_int e (snd kv)) vals) degree = Inl err"
  shows "plotData_result e dat county degree p = Inl err"
  using observed_slice [OF assms(3)] assms
  by (simp add: plotData_result_def Let_def)

lemma three_upper: "store_three (str_upper utc ''BRAGA'') = Some series_three"
  by code_simp

lemma three_given: "store_three ''BRAGA'' = Some series_three"
  by code_simp

lemma three_dates: "those (map (\<lambda>kv. strptime_Ymd (fst kv)) series_three) = Some dates_three"
  by code_simp

lemma three_length: "length series_three = 3"
  by (simp add: series_three_def)

lemma three_axis: "xaxis dates_three = [0, 2, 9]"
  by code_simp

lemma three_new_dates_0: "new_dates utc dates_three 0 = Inr dates_three"
  by code_simp

lemma three_new_dates_2:
  "new_dates utc dates_three 2 = Inr (dates_three @ [midnight 2021 2 9, midnight 2021 3 11])"
  by code_simp

lemma three_fit_2:
  "polyfit utc (xaxis dates_three) (map (\<lambda>kv. astype_int utc (snd kv)) series_three) 2
     = Inr [0, 0, 0]"
  by code_simp

lemma three_fit_5:
  "polyfit utc (xaxis dates_three) (map (\<lambda>kv. astype_int utc (snd kv)) series_three) 5
     = Inr [0, 0, 0, 0, 0, 0]"
  by code_simp

lemma fit_lengths_aux:
  assumes "plotData_result e dat county degree predictions = Inr r"
    and "dat (str_upper e county) = Some ser"
    and "those (map (\<lambda>kv. strptime_Ymd (fst kv)) ser) = Some ds"
    and "dat county = Some vals"
  shows "length (xaxis ds) = length vals"
    and "length (plot_x r) = length vals + nat predictions"
    and "take (length vals) (plot_x r) = xaxis ds"
    and "fit_x r = xaxis ds"
    and "lstsq e (xaxis ds) (map (\<lambda>kv. astype_int e (snd kv)) vals) degree = Some (coefficients r)"
proof -
  from plotData_result_Inr [OF assms(1)] assms(2-4) obtain dates where
    nd: "new_dates e ds predictions = Inr dates"
    and pf: "polyfit e (if predictions > 0 then py_slice (xaxis dates) None (Some (- predictions))
                        else xaxis dates)
               (map (\<lambda>kv. astype_int e (snd kv)) vals) degree = Inr (coefficients r)"
    and px: "plot_x r = xaxis dates"
    and fx: "fit_x r = (if predictions > 0 then py_slice (xaxis dates) None (Some (- predictions))
                        else xaxis dates)"
    by auto
  show fx': "fit_x r = xaxis ds" using fx observed_slice [OF nd] by simp
  from pf have pf': "polyfit e (xaxis ds) (map (\<lambda>kv. astype_int e (snd kv)) vals) degree
                       = Inr (coefficients r)"
    using observed_slice [OF nd] by simp
  from polyfit_Inr [OF pf'] show len: "length (xaxis ds) = length vals"
    and "lstsq e (xaxis ds) (map (\<lambda>kv. astype_int e (snd kv)) vals) degree = Some (coefficients r)"
    by simp_all
  show "take (length vals) (plot_x r) = xaxis ds"
    using xaxis_prefix [OF nd] len px by simp
  show "length (plot_x r) = length vals + nat predictions"
    using length_plot_axis [OF nd] len px by simp
qed

text \<open>
  Claim C1. When \<^verbatim>\<open>plotData\<close> draws, the first argument of \<^verbatim>\<open>np.polyfit\<close> is the axis of
  the observed dates alone and the second the observed cases, one for each; the
  coefficients are the solver's answer on these points. The axis that is drawn starts with
  the same values and goes on with one more value for each prediction.
\<close>

theorem fit_uses_observed_points_only:
  assumes "plotData_result e dat county degree predictions = Inr r"
    and "dat (str_upper e county) = Some ser"
    and "those (map (\<lambda>kv. strptime_Ymd (fst kv)) ser) = Some ds"
    and "dat county = Some vals"
  shows "fit_x r = xaxis ds
       \<and> fit_y r = map (\<lambda>kv. astype_int e (snd kv)) vals
       \<and> length (fit_x r) = length vals
       \<and> lstsq e (xaxis ds) (map (\<lambda>kv. astype_int e (snd kv)) vals) degree = Some (coefficients r)
       \<and> take (length vals) (plot_x r) = fit_x r
       \<and> length (plot_x r) = length vals + nat predictions"
proof -
  from plotData_result_Inr [OF assms(1)] assms(4)
  have fy: "fit_y r = map (\<lambda>kv. astype_int e (snd kv)) vals" by auto
  from fit_lengths_aux [OF assms] fy show ?thesis by simp
qed

theorem fit_uses_observed_points_only_witness:
  "\<exists>r. plotData_result utc store_three ''BRAGA'' 2 2 = Inr r
     \<and> fit_x r = [0, 2, 9] \<and> take 3 (plot_x r) = [0, 2, 9] \<and> length (plot_x r) = 5"
proof -
  from plotData_result_succeeds [OF three_upper three_dates three_new_dates_2 three_given three_fit_2]
  obtain r where run: "plotData_result utc store_three ''BRAGA'' 2 2 = Inr r" by auto
  from fit_uses_observed_points_only [OF run three_upper three_dates three_given]
  have "fit_x r = [0, 2, 9] \<and> take 3 (plot_x r) = [0, 2, 9] \<and> length (plot_x r) = 5"
    by (simp add: three_axis three_length)
  with run show ?thesis by blast
qed


text \<open>
  Claim C2. For observed dates \<open>ds\<close>, not empty, the axis starts at 0 and each further
  value adds the days between a date and the one before it; the dates 2021-01-01,
  2021-01-03 and 2021-01-10 give the axis 0, 2, 9.
\<close>

theorem x_axis_cumulative_day_offsets:
  assumes "plotData_result e dat county degree predictions = Inr r"
    and "dat (str_upper e county) = Some ser"
    and "those (map (\<lambda>kv. strptime_Ymd (fst kv)) ser) = Some ds"
    and "ds \<noteq> []"
  shows "plot_x r ! 0 = 0
       \<and> (\<forall>i. 1 \<le> i \<and> i < length ds \<longrightarrow>
            plot_x r ! i = plot_x r ! (i - 1) + days (ds ! i) (ds ! (i - 1)))
       \<and> map_option xaxis (those (map strptime_Ymd [''2021-01-01'', ''2021-01-03'', ''2021-01-10'']))
           = Some [0, 2, 9]"
proof -
  from plotData_result_Inr [OF assms(1)] assms(2,3) obtain dates where
    nd: "new_dates e ds predictions = Inr dates" and px: "plot_x r = xaxis dates"
    by auto
  from new_dates_Inr(1) [OF nd] obtain fs where fs: "dates = ds @ fs" by blast
  have step: "plot_x r ! i = plot_x r ! (i - 1) + days (ds ! i) (ds ! (i - 1))"
    if "1 \<le> i" and "i < length ds" for i
  proof -
    from that fs have "i < length dates" by simp
    moreover from that have "i - 1 < length ds" by simp
    ultimately show ?thesis
      using xaxis_step [OF that(1), of dates] that fs px by (simp add: nth_append)
  qed
  have ex: "map_option xaxis
              (those (map strptime_Ymd [''2021-01-01'', ''2021-01-03'', ''2021-01-10'']))
            = Some [0, 2, 9]"
    by code_simp
  from step ex px show ?thesis by (simp add: xaxis_0)
qed

theorem x_axis_cumulative_day_offsets_witness:
  "\<exists>r. plotData_result utc store_three ''BRAGA'' 2 0 = Inr r
     \<and> plot_x r ! 0 = 0
     \<and> plot_x r ! 1 = plot_x r ! 0 + 2
     \<and> plot_x r ! 2 = plot_x r ! 1 + 7"
proof -
  from plotData_result_succeeds [OF three_upper three_dates three_new_dates_0 three_given three_fit_2]
  obtain r where run: "plotData_result utc store_three ''BRAGA'' 2 0 = Inr r" by auto
  have ne: "dates_three \<noteq> []" by (simp add: dates_three_def)
  have d1: "days (dates_three ! 1) (dates_three ! 0) = 2" by code_simp
  have d2: "days (dates_three ! 2) (dates_three ! 1) = 7" by code_simp
  have l: "length dates_three = 3" by (simp add: dates_three_def)
  from x_axis_cumulative_day_offsets [OF run three_upper three_dates ne]
  have z: "plot_x r ! 0 = 0"
    and st: "\<And>i. 1 \<le> i \<Longrightarrow> i < 3 \<Longrightarrow>
               plot_x r ! i = plot_x r ! (i - 1) + days (dates_three ! i) (dates_three ! (i - 1))"
    by (simp_all add: l)
  from st [of 1] st [of 2] d1 d2
  have "plot_x r ! 1 = plot_x r ! 0 + 2" "plot_x r ! 2 = plot_x r ! 1 + 7"
    by (simp_all add: numeral_2_eq_2)
  with run z show ?thesis by blast
qed

text \<open>
  Claim C4. The axis that is drawn has one value for each observed case and one for each
  prediction.
\<close>

theorem x_axis_length:
  assumes "plotData_result e dat county degree predictions = Inr r"
    and "dat county = Some vals"
  shows "length (plot_x r) = length vals + nat predictions \<and> length (plot_y r) = length vals"
proof -
  from plotData_result_Inr [OF assms(1)] assms(2) obtain ser ds where
    up: "dat (str_upper e county) = Some ser"
    and ds: "those (map (\<lambda>kv. strptime_Ymd (fst kv)) ser) = Some ds"
    and py: "plot_y r = map (\<lambda>kv. astype_int e (snd kv)) vals"
    by auto
  from fit_lengths_aux [OF assms(1) up ds assms(2)] py show ?thesis by simp
qed

theorem x_axis_length_witness:
  "\<exists>r. plotData_result utc store_three ''BRAGA'' 2 2 = Inr r \<and> length (plot_x r) = 3 + 2"
proof -
  from plotData_result_succeeds [OF three_upper three_dates three_new_dates_2 three_given three_fit_2]
  obtain r where run: "plotData_result utc store_three ''BRAGA'' 2 2 = Inr r" by auto
  from x_axis_length [OF run three_given] have "length (plot_x r) = 3 + 2"
    by (simp add: three_length)
  with run show ?thesis by blast
qed

lemma np_mean_pair: "np_mean [a, b] = Val (of_int (a + b) / 2)"
  by (simp add: np_mean_def)

lemma take_two_drop:
  "Suc k < length xs \<Longrightarrow> take 2 (drop k xs) = [xs ! k, xs ! Suc k]"
  by (simp add: numeral_2_eq_2 take_Suc_conv_app_nth)

lemma split_line_between:
  assumes "0 < p" and "1 \<le> n" and "length x = n + nat p"
  shows "split_line x p = Some (Val (of_int (x ! (n - 1) + x ! n) / 2))"
proof -
  from assms have lt: "Suc (n - 1) < length x" by simp
  have many: "py_slice x (Some (- p - 1)) (Some (- p + 1)) = take 2 (drop (n - 1) x)" if "1 < p"
    using that assms by (auto simp: py_slice_def Let_def max_def min_def intro!: arg_cong2 [where f = take] arg_cong2 [where f = drop])
  have one: "py_slice x (Some (- 2)) None = take 2 (drop (n - 1) x)" if "p = 1"
    using that assms by (auto simp: py_slice_def Let_def max_def min_def intro!: arg_cong2 [where f = take] arg_cong2 [where f = drop])
  from assms(1) many one take_two_drop [OF lt] assms(2) show ?thesis
    by (auto simp: split_line_def np_mean_pair)
qed

text \<open>
  Claim C5, as the program has it. With predictions the line between confirmed and
  predicted cases is drawn half-way between the last observed value of the axis, at
  position \<open>n - 1\<close>, and the first predicted one, at position \<open>n\<close>, for \<open>n\<close> observed
  cases; without predictions no line is drawn. The degree has no part in it.
\<close>

theorem split_line_position:
  assumes "plotData_result e dat county degree predictions = Inr r"
    and "dat county = Some vals"
  shows "(0 < predictions \<longrightarrow>
            1 \<le> length vals \<and> length vals < length (plot_x r)
          \<and> axvline r
              = Some (Val (of_int (plot_x r ! (length vals - 1) + plot_x r ! length vals) / 2)))
       \<and> (predictions \<le> 0 \<longrightarrow> axvline r = None)
       \<and> (\<forall>degree' r'. plotData_result e dat county degree' predictions = Inr r'
             \<longrightarrow> axvline r' = axvline r)"
proof -
  from plotData_result_Inr [OF assms(1)] assms(2) obtain ser ds dates where
    up: "dat (str_upper e county) = Some ser"
    and ds: "those (map (\<lambda>kv. strptime_Ymd (fst kv)) ser) = Some ds"
    and nd: "new_dates e ds predictions = Inr dates"
    and px: "plot_x r = xaxis dates"
    and ax: "axvline r = split_line (xaxis dates) predictions"
    by auto
  note len = fit_lengths_aux(1,2) [OF assms(1) up ds assms(2)]
  have pos: "1 \<le> length vals \<and> length vals < length (plot_x r)
      \<and> axvline r = Some (Val (of_int (plot_x r ! (length vals - 1) + plot_x r ! length vals) / 2))"
    if "0 < predictions"
  proof -
    from len(1) have n: "1 \<le> length vals" by (simp add: length_xaxis)
    from that len(2) have "length vals < length (plot_x r)" by simp
    moreover from split_line_between [OF that n, of "plot_x r"] len(2) ax px
    have "axvline r = Some (Val (of_int (plot_x r ! (length vals - 1) + plot_x r ! length vals) / 2))"
      by simp
    ultimately show ?thesis using n by simp
  qed
  have none: "axvline r = None" if "predictions \<le> 0"
    using that ax by (simp add: split_line_def)
  have same: "axvline r' = axvline r"
    if "plotData_result e dat county degree' predictions = Inr r'" for degree' r'
    using plotData_result_Inr [OF that] up ds nd ax by auto
  from pos none same show ?thesis by blast
qed

lemma plotData_result_axis:
  assumes "plotData_result e dat county degree p = Inr r"
    and "dat (str_upper e county) = Some ser"
    and "those (map (\<lambda>kv. strptime_Ymd (fst kv)) ser) = Some ds"
    and "new_dates e ds p = Inr dates"
  shows "plot_dates r = dates" and "plot_x r = xaxis dates"
    and "axvline r = split_line (xaxis dates) p"
  using plotData_result_Inr [OF assms(1)] assms(2-4) by auto

lemma three_axis_2:
  "xaxis (dates_three @ [midnight 2021 2 9, midnight 2021 3 11]) = [0, 2, 9, 39, 69]"
  by code_simp

text \<open>
  The line for three observed dates and two predictions lies at day 24, between the days
  9 and 39.
\<close>

theorem split_line_position_witness:
  "\<exists>r. plotData_result utc store_three ''BRAGA'' 2 2 = Inr r
     \<and> plot_x r = [0, 2, 9, 39, 69] \<and> axvline r = Some (Val 24)"
proof -
  from plotData_result_succeeds [OF three_upper three_dates three_new_dates_2 three_given three_fit_2]
  obtain r where run: "plotData_result utc store_three ''BRAGA'' 2 2 = Inr r" by auto
  from plotData_result_axis(2) [OF run three_upper three_dates three_new_dates_2]
  have x: "plot_x r = [0, 2, 9, 39, 69]" by (simp add: three_axis_2)
  from split_line_position [OF run three_given]
  have "axvline r = Some (Val (of_int (plot_x r ! (length series_three - 1)
                                + plot_x r ! length series_three) / 2))"
    by simp
  with x have "axvline r = Some (Val 24)" by (simp add: three_length)
  with run x show ?thesis by blast
qed

text \<open>
  Claim C5 as stated asks for a split at position \<open>n - 1\<close> when there is no prediction;
  the program computes no split then.
\<close>

theorem no_split_line_without_predictions:
  "map_sum id axvline (plotData_result utc store_three ''BRAGA'' 2 0) = Inr None"
proof -
  from plotData_result_succeeds [OF three_upper three_dates three_new_dates_0 three_given three_fit_2]
  obtain r where run: "plotData_result utc store_three ''BRAGA'' 2 0 = Inr r" by auto
  from plotData_result_axis(3) [OF run three_upper three_dates three_new_dates_0]
  have "axvline r = None" by (simp add: split_line_def)
  with run show ?thesis by simp
qed

text \<open>
  Claim C6, as the program has it. The number of observed points is not compared with
  the degree and nothing like an InsufficientDataError is raised. For a series that is
  not empty, with as many cases as dates, and a degree from 0 on, \<^verbatim>\<open>np.polyfit\<close> is
  called on the observed points, and what it does decides the call: where it answers,
  also with fewer points than \<open>degree + 1\<close>, \<^verbatim>\<open>plotData\<close> draws with its answer; where it
  fails, the failure is the solver's LinAlgError, as it is for a single observed point
  with a degree of 1 or more.
\<close>

theorem fit_not_guarded_by_degree:
  assumes "dat (str_upper e county) = Some ser"
    and "those (map (\<lambda>kv. strptime_Ymd (fst kv)) ser) = Some ds"
    and "ds \<noteq> []"
    and "new_dates e ds predictions = Inr dates"
    and "dat county = Some vals"
    and "length vals = length ds"
    and "0 \<le> degree"
  shows "(\<forall>z. polyfit e (xaxis ds) (map (\<lambda>kv. astype_int e (snd kv)) vals) degree = Inr z
            \<longrightarrow> (\<exists>r. plotData_result e dat county degree predictions = Inr r
                   \<and> fit_x r = xaxis ds \<and> length (fit_x r) = length ds
                   \<and> coefficients r = z))
       \<and> (\<forall>err. polyfit e (xaxis ds) (map (\<lambda>kv. astype_int e (snd kv)) vals) degree = Inl err
            \<longrightarrow> err = LinAlgError
                \<and> plotData_result e dat county degree predictions = Inl LinAlgError)
       \<and> (length ds = 1 \<and> 1 \<le> degree
            \<longrightarrow> plotData_result e dat county degree predictions = Inl LinAlgError)"
proof -
  let ?ys = "map (\<lambda>kv. astype_int e (snd kv)) vals"
  from assms(3) have len: "length (xaxis ds) = length ds"
    by (simp add: length_xaxis_nonempty)
  with assms(3,6) have ne: "xaxis ds \<noteq> []" and leq: "length (xaxis ds) = length ?ys"
    by auto
  have answers: "\<exists>r. plotData_result e dat county degree predictions = Inr r
                   \<and> fit_x r = xaxis ds \<and> length (fit_x r) = length ds \<and> coefficients r = z"
    if fit: "polyfit e (xaxis ds) ?ys degree = Inr z" for z
  proof -
    from plotData_result_succeeds [OF assms(1,2,4,5) fit]
    obtain r where run: "plotData_result e dat county degree predictions = Inr r" by auto
    from fit_lengths_aux(4,5) [OF run assms(1,2,5)] polyfit_Inr [OF fit]
    have "fit_x r = xaxis ds" and "coefficients r = z" by simp_all
    with run len show ?thesis by auto
  qed
  have fails: "err = LinAlgError
             \<and> plotData_result e dat county degree predictions = Inl LinAlgError"
    if fit: "polyfit e (xaxis ds) ?ys degree = Inl err" for err
    using polyfit_Inl [OF fit assms(7) ne leq]
          plotData_result_fit_fails [OF assms(1,2,4,5) fit]
    by simp
  have single: "plotData_result e dat county degree predictions = Inl LinAlgError"
    if one: "length ds = 1" and deg: "1 \<le> degree"
  proof -
    from one obtain d where "ds = [d]" by (cases ds) auto
    then have "xaxis ds = [0]" by (simp add: xaxis_def cumsum_def)
    with deg leq have "polyfit e (xaxis ds) ?ys degree = Inl LinAlgError"
      by (simp add: polyfit_def)
    from plotData_result_fit_fails [OF assms(1,2,4,5) this] show ?thesis .
  qed
  from answers fails single show ?thesis by blast
qed

text \<open>
  Three points and degree 5.
\<close>

theorem fit_not_guarded_by_degree_witness:
  "\<exists>r. plotData_result utc store_three ''BRAGA'' 5 0 = Inr r
     \<and> fit_x r = [0, 2, 9] \<and> length (fit_x r) = 3"
proof -
  have ne: "dates_three \<noteq> []" by (simp add: dates_three_def)
  have len: "length series_three = length dates_three"
    by (simp add: series_three_def dates_three_def)
  have deg: "(0::int) \<le> 5" by simp
  have l: "length dates_three = 3" by (simp add: dates_three_def)
  from fit_not_guarded_by_degree
         [OF three_upper three_dates ne three_new_dates_0 three_given len deg]
       three_fit_5
  have "\<exists>r. plotData_result utc store_three ''BRAGA'' 5 0 = Inr r
          \<and> fit_x r = xaxis dates_three \<and> length (fit_x r) = length dates_three
          \<and> coefficients r = [0, 0, 0, 0, 0, 0]"
    by blast
  then show ?thesis by (auto simp: three_axis l)
qed

text \<open>
  Claim C6 as stated asks for a failure on three points with degree 5 and no prediction;
  the program fits the three points.
\<close>

theorem three_points_degree_five_fitted:
  "map_sum id fit_x (plotData_result utc store_three ''BRAGA'' 5 0) = Inr [0, 2, 9]"
proof -
  from plotData_result_succeeds [OF three_upper three_dates three_new_dates_0 three_given three_fit_5]
  obtain r where run: "plotData_result utc store_three ''BRAGA'' 5 0 = Inr r" by auto
  from fit_lengths_aux(4) [OF run three_upper three_dates three_given] run show ?thesis
    by (simp add: three_axis)
qed














lemma october_upper: "store_october (str_upper lisbon ''BRAGA'') = Some series_october"
  by code_simp


lemma october_given: "store_october ''BRAGA'' = Some series_october"
  by code_simp

lemma october_dates:
  "those (map (\<lambda>kv. strptime_Ymd (fst kv)) series_october) = Some dates_october"
  by code_simp

lemma october_new_dates:
  "new_dates lisbon dates_october 1 = Inr (dates_october @ [midnight 2021 11 14 - 3600])"
  by code_simp


lemma october_axis: "xaxis (dates_october @ [midnight 2021 11 14 - 3600]) = [0, 1, 30]"
  by code_simp


lemma october_fit_1:
  "polyfit lisbon (xaxis dates_october) (map (\<lambda>kv. astype_int lisbon (snd kv)) series_october) 1
     = Inr [0, 0]"
  by code_simp


lemma october_run_lisbon:
  "map_sum id (\<lambda>r. (plot_dates r, plot_x r, axvline r))
     (plotData_result lisbon store_october ''BRAGA'' 1 1)
   = Inr (dates_october @ [midnight 2021 11 14 - 3600], [0, 1, 30], Some (Val (31 / 2)))"
proof -
  from plotData_result_succeeds
         [OF october_upper october_dates october_new_dates october_given october_fit_1]
  obtain r where run: "plotData_result lisbon store_october ''BRAGA'' 1 1 = Inr r" by auto
  note ax = plotData_result_axis [OF run october_upper october_dates october_new_dates]
  from ax(2) have x: "plot_x r = [0, 1, 30]" by (simp add: october_axis)
  from ax(3) have "axvline r = split_line [0, 1, 30] 1" by (simp add: october_axis)
  then have "axvline r = Some (Val (31 / 2))"
    by (simp add: split_line_def py_slice_def np_mean_def)
  with run x ax(1) show ?thesis by simp
qed


text \<open>
  Claim C3 at an input where the program leaves it. The process runs in the zone
  Europe/Lisbon, the observed dates are 2021-10-14 and 2021-10-15, the degree is 1 and
  one prediction is asked for. The clocks go back on 2021-10-31, so 30 times 86400 seconds
  after local midnight of 2021-10-15 it is 23:00 on 2021-11-13, one hour before
  2021-11-14, and the axis goes on by 29 days, not 30: it is 0, 1, 30 where steps of 30
  days give 0, 1, 31.
\<close>

theorem future_date_across_clock_change:
  "map_sum id (\<lambda>r. (plot_dates r, plot_x r)) (plotData_result lisbon store_october ''BRAGA'' 1 1)
     = Inr ([midnight 2021 10 14, midnight 2021 10 15, midnight 2021 11 14 - 3600], [0, 1, 30])"
proof -
  from october_run_lisbon
  obtain r where run: "plotData_result lisbon store_october ''BRAGA'' 1 1 = Inr r"
    and "plot_dates r = dates_october @ [midnight 2021 11 14 - 3600]"
    and "plot_x r = [0, 1, 30]"
    by (cases "plotData_result lisbon store_october ''BRAGA'' 1 1") auto
  then show ?thesis by (simp add: dates_october_def)
qed


text \<open>
  What the arguments do decide, whatever the zone: the points that are fitted and the
  coefficients, for the same libraries.
\<close>

lemma coefficients_independent_of_zone:
  assumes "plotData_result e dat county degree predictions = Inr r"
    and "plotData_result e' dat county degree predictions = Inr r'"
    and "str_upper e' = str_upper e" and "lstsq e' = lstsq e" and "nan_to_int e' = nan_to_int e"
  shows "fit_x r' = fit_x r \<and> fit_y r' = fit_y r \<and> coefficients r' = coefficients r"
proof -
  from plotData_result_Inr [OF assms(1)] obtain ser ds vals where
    up: "dat (str_upper e county) = Some ser"
    and ds: "those (map (\<lambda>kv. strptime_Ymd (fst kv)) ser) = Some ds"
    and given: "dat county = Some vals"
    and fy: "fit_y r = map (\<lambda>kv. astype_int e (snd kv)) vals"
    by auto
  from up assms(3) have up': "dat (str_upper e' county) = Some ser" by simp
  from plotData_result_Inr [OF assms(2)] given
  have fy': "fit_y r' = map (\<lambda>kv. astype_int e' (snd kv)) vals" by auto
  have same: "astype_int e' = astype_int e"
    using assms(5) by (auto simp: astype_int_def fun_eq_iff split: cell.splits)
  note a = fit_lengths_aux(4,5) [OF assms(1) up ds given]
  note b = fit_lengths_aux(4,5) [OF assms(2) up' ds given]
  from a b same assms(4) fy fy' show ?thesis by simp
qed

text \<open>
  Where the offset of the zone from UTC does not change between the last observed date
  and a new date, the new dates lie 30 days apart: the \<open>k\<close>-th of them, counted from 0, is
  \<open>(k + 1) * 30\<close> days after the last observed date. The dates after 2021-06-15 are such.
\<close>

lemma future_dates_fixed_offset:
  assumes "new_dates e ds p = Inr dates" and "0 < p" and "k < nat p"
    and zone: "\<And>t s u. timestamp e (last ds) = Some t \<Longrightarrow> fromtimestamp e (t + s) = Some u
                 \<Longrightarrow> u = last ds + s"
  shows "dates ! (length ds + k) = last ds + (int k + 1) * (30 * day_seconds)"
proof -
  from new_dates_future [OF assms(1-3)] obtain ts where
    "timestamp e (last ds) = Some ts"
    "fromtimestamp e (ts + (int k + 1) * month_diff) = Some (dates ! (length ds + k))"
    by blast
  from zone [OF this] show ?thesis by (simp add: month_diff_def day_seconds_def)
qed

lemma june_example:
  "new_dates lisbon [midnight 2021 6 15] 2
     = Inr [midnight 2021 6 15, midnight 2021 7 15, midnight 2021 8 14]"
  by code_simp

section \<open>Properties of getInfo\<close>

lemma those_zip:
  "those (map f xs) = Some ys \<Longrightarrow> zip ys xs = map (\<lambda>x. (the (f x), x)) xs"
  by (induction xs arbitrary: ys) (auto split: option.splits)

lemma those_Some_all:
  "those (map f xs) = Some ys \<Longrightarrow> x \<in> set xs \<Longrightarrow> \<exists>y. f x = Some y"
  by (induction xs arbitrary: ys) (auto split: option.splits)

lemma getInfo_builds:
  assumes "status_code r = 200"
    and "strptime_dmY (start_date self) = Some s0"
    and "strptime_dmY (end_date self) = Some e0"
    and "json r \<noteq> []"
    and "those (map (\<lambda>en. strptime_dmY (e_data en)) (json r)) = Some ts"
    and "pd_timestamp e (start_date self) = Some lo"
    and "pd_timestamp e (end_date self) = Some hi"
  shows "getInfo e r self save_json distr =
           (None, self\<lparr>district := distr,
                   data := pivot_table
                     (map (\<lambda>(t, en). (t, e_concelho en, e_confirmados_1 en))
                        (filter (\<lambda>(t, en). t \<ge> lo \<and> t \<le> hi)
                           (filter (\<lambda>(t, en). e_distrito en = str_upper e distr)
                              (zip ts (json r)))))\<rparr>)"
  using assms by (simp add: getInfo_def Let_def)

lemma getInfo_no_entries:
  assumes "status_code r = 200"
    and "strptime_dmY (start_date self) = Some s0"
    and "strptime_dmY (end_date self) = Some e0"
    and "json r = []"
  shows "getInfo e r self save_json distr = (Some (KeyError ''data''), self\<lparr>district := distr\<rparr>)"
  using assms by (simp add: getInfo_def Let_def)

lemma pivot_table_Nil: "pivot_table [] = Map.empty"
  by (simp add: pivot_table_def)

lemma pivot_table_cell:
  assumes "(t, c, v) \<in> set rows"
  shows "\<exists>ser. pivot_table rows c = Some ser \<and> (iso_date t, pivot_cell rows t c) \<in> set ser"
proof -
  from assms have c: "c \<in> set (map (\<lambda>r. fst (snd r)) rows)" by force
  from assms have t: "t \<in> set (sort (remdups (map fst rows)))" by force
  from c have "pivot_table rows c
      = Some (map (\<lambda>t. (iso_date t, pivot_cell rows t c)) (sort (remdups (map fst rows))))"
    by (simp add: pivot_table_def Let_def)
  moreover have "(iso_date t, pivot_cell rows t c)
      \<in> set (map (\<lambda>t. (iso_date t, pivot_cell rows t c)) (sort (remdups (map fst rows))))"
    unfolding set_map using t by (rule imageI)
  ultimately show ?thesis by blast
qed

lemma pivot_cell_mean:
  assumes "(t, c, v) \<in> set rows"
  shows "pivot_cell rows t c =
           (let vs = map (\<lambda>r. snd (snd r)) (filter (\<lambda>r. fst r = t \<and> fst (snd r) = c) rows)
            in Val (of_int (sum_list vs) / of_int (int (length vs))))"
proof -
  from assms have "(t, c, v) \<in> set (filter (\<lambda>r. fst r = t \<and> fst (snd r) = c) rows)" by simp
  then have "filter (\<lambda>r. fst r = t \<and> fst (snd r) = c) rows \<noteq> []" by force
  then show ?thesis by (simp add: pivot_cell_def Let_def)
qed

lemma selected_rows:
  assumes "those (map f xs) = Some ts"
  shows "map (\<lambda>(t, en). (t, g en, h en))
           (filter (\<lambda>(t, en). t \<ge> lo \<and> t \<le> hi) (filter (\<lambda>(t, en). p en) (zip ts xs)))
         = map (\<lambda>en. (the (f en), g en, h en))
             (filter (\<lambda>en. p en \<and> the (f en) \<ge> lo \<and> the (f en) \<le> hi) xs)"
  by (simp add: those_zip [OF assms] filter_map comp_def conj_commute)

text \<open>
  Claim C7, as the program has it. \<^verbatim>\<open>getInfo\<close> does not fail on entries of one county
  and date. When the request answers 200 and the dates and bounds are read, every entry
  of the district within the range has a value in the store under its county and date:
  the mean of the daily cases of all entries of the district with that county and date.
\<close>

theorem duplicates_are_averaged:
  assumes "status_code r = 200"
    and "strptime_dmY (start_date self) = Some s0"
    and "strptime_dmY (end_date self) = Some e0"
    and "those (map (\<lambda>en. strptime_dmY (e_data en)) (json r)) = Some ts"
    and "pd_timestamp e (start_date self) = Some lo"
    and "pd_timestamp e (end_date self) = Some hi"
    and "en \<in> set (json r)"
    and "strptime_dmY (e_data en) = Some t"
    and "e_distrito en = str_upper e distr"
    and "lo \<le> t" and "t \<le> hi"
  shows "fst (getInfo e r self save_json distr) = None
       \<and> (\<exists>ser. data (snd (getInfo e r self save_json distr)) (e_concelho en) = Some ser
            \<and> (let vs = map e_confirmados_1
                          (filter (\<lambda>en'. strptime_dmY (e_data en') = Some t
                                        \<and> e_concelho en' = e_concelho en
                                        \<and> e_distrito en' = str_upper e distr) (json r))
               in (iso_date t, Val (of_int (sum_list vs) / of_int (int (length vs)))) \<in> set ser))"
proof -
  let ?f = "\<lambda>en. strptime_dmY (e_data en)"
  let ?sel = "filter (\<lambda>en. e_distrito en = str_upper e distr \<and> the (?f en) \<ge> lo \<and> the (?f en) \<le> hi)
                (json r)"
  let ?rows = "map (\<lambda>en. (the (?f en), e_concelho en, e_confirmados_1 en)) ?sel"
  from assms(7) have ne: "json r \<noteq> []" by auto
  have run: "getInfo e r self save_json distr
               = (None, self\<lparr>district := distr, data := pivot_table ?rows\<rparr>)"
    using getInfo_builds [OF assms(1-3) ne assms(4-6), of save_json distr]
    unfolding selected_rows [OF assms(4)] .
  from assms(7-11) have "en \<in> set ?sel" by simp
  then have row: "(t, e_concelho en, e_confirmados_1 en) \<in> set ?rows"
    using assms(8) by force
  have same: "filter (\<lambda>en'. the (?f en') = t \<and> e_concelho en' = e_concelho en) ?sel
            = filter (\<lambda>en'. ?f en' = Some t \<and> e_concelho en' = e_concelho en
                          \<and> e_distrito en' = str_upper e distr) (json r)"
  proof -
    have "(the (?f en') = t \<and> e_concelho en' = e_concelho en)
            \<and> (e_distrito en' = str_upper e distr \<and> the (?f en') \<ge> lo \<and> the (?f en') \<le> hi)
          \<longleftrightarrow> (?f en' = Some t \<and> e_concelho en' = e_concelho en
                 \<and> e_distrito en' = str_upper e distr)"
      if "en' \<in> set (json r)" for en'
      using those_Some_all [OF assms(4) that] assms(10,11) by auto
    then show ?thesis by (auto intro: filter_cong)
  qed
  have vs: "map (\<lambda>r. snd (snd r))
              (filter (\<lambda>r. fst r = t \<and> fst (snd r) = e_concelho en) ?rows)
          = map e_confirmados_1
              (filter (\<lambda>en'. ?f en' = Some t \<and> e_concelho en' = e_concelho en
                            \<and> e_distrito en' = str_upper e distr) (json r))"
    using same by (simp add: filter_map comp_def)
  from pivot_table_cell [OF row] obtain ser where
    ser: "pivot_table ?rows (e_concelho en) = Some ser"
    and cell: "(iso_date t, pivot_cell ?rows t (e_concelho en)) \<in> set ser"
    by blast
  from pivot_cell_mean [OF row] vs cell
  have "(let vs = map e_confirmados_1
                    (filter (\<lambda>en'. ?f en' = Some t \<and> e_concelho en' = e_concelho en
                                  \<and> e_distrito en' = str_upper e distr) (json r))
         in (iso_date t, Val (of_int (sum_list vs) / of_int (int (length vs)))) \<in> set ser)"
    by (simp add: Let_def)
  with run ser show ?thesis by simp
qed

text \<open>
  Claim C8, as the program has it. When the request answers 200 and the bounds are
  dates, an answer with no entry raises KeyError for the column \<^verbatim>\<open>data\<close>; an answer
  with entries of which none is of the district and in the range raises nothing and
  leaves an empty store.
\<close>

theorem build_without_matching_entries:
  assumes "status_code r = 200"
    and "strptime_dmY (start_date self) = Some s0"
    and "strptime_dmY (end_date self) = Some e0"
  shows "(json r = [] \<longrightarrow> fst (getInfo e r self save_json distr) = Some (KeyError ''data''))
       \<and> (json r \<noteq> []
          \<and> those (map (\<lambda>en. strptime_dmY (e_data en)) (json r)) = Some ts
          \<and> pd_timestamp e (start_date self) = Some lo
          \<and> pd_timestamp e (end_date self) = Some hi
          \<and> (\<forall>en \<in> set (json r). \<forall>t. strptime_dmY (e_data en) = Some t \<longrightarrow>
                \<not> (e_distrito en = str_upper e distr \<and> lo \<le> t \<and> t \<le> hi))
          \<longrightarrow> fst (getInfo e r self save_json distr) = None
              \<and> data (snd (getInfo e r self save_json distr)) = Map.empty)"
proof -
  let ?f = "\<lambda>en. strptime_dmY (e_data en)"
  have none: "fst (getInfo e r self save_json distr) = Some (KeyError ''data'')" if "json r = []"
    using getInfo_no_entries [OF assms that, of e save_json distr] by simp
  have built: "fst (getInfo e r self save_json distr) = None
             \<and> data (snd (getInfo e r self save_json distr)) = Map.empty"
    if ne: "json r \<noteq> []" and ts: "those (map ?f (json r)) = Some ts"
      and lo: "pd_timestamp e (start_date self) = Some lo"
      and hi: "pd_timestamp e (end_date self) = Some hi"
      and no: "\<forall>en \<in> set (json r). \<forall>t. ?f en = Some t \<longrightarrow>
                 \<not> (e_distrito en = str_upper e distr \<and> lo \<le> t \<and> t \<le> hi)"
  proof -
    have "\<not> (e_distrito en = str_upper e distr \<and> the (?f en) \<ge> lo \<and> the (?f en) \<le> hi)"
      if "en \<in> set (json r)" for en
      using those_Some_all [OF ts that] no that by auto
    then have "filter (\<lambda>en. e_distrito en = str_upper e distr
                          \<and> the (?f en) \<ge> lo \<and> the (?f en) \<le> hi) (json r) = []"
      by (simp add: filter_empty_conv)
    moreover note getInfo_builds [OF assms ne ts lo hi, of save_json distr, unfolded selected_rows [OF ts]]
    ultimately show ?thesis
      by (simp add: pivot_table_Nil)
  qed
  from none built show ?thesis by blast
qed

lemma app_three_start: "strptime_dmY (start_date app_three) = Some (midnight 2021 1 1)"
  by code_simp

lemma app_three_end: "strptime_dmY (end_date app_three) = Some (midnight 2021 12 31)"
  by code_simp

lemma app_three_lo: "pd_timestamp utc (start_date app_three) = Some (midnight 2021 1 1)"
  by code_simp

lemma app_three_hi: "pd_timestamp utc (end_date app_three) = Some (midnight 2021 12 31)"
  by code_simp

lemma twice_status: "status_code response_twice = 200"
  by (simp add: response_twice_def)

lemma twice_dates:
  "those (map (\<lambda>en. strptime_dmY (e_data en)) (json response_twice))
     = Some [midnight 2021 1 1, midnight 2021 1 1]"
  by code_simp

lemma twice_member: "entry_braga_5 \<in> set (json response_twice)"
  by (simp add: response_twice_def)

lemma braga_5_date: "strptime_dmY (e_data entry_braga_5) = Some (midnight 2021 1 1)"
  by code_simp

lemma braga_5_district: "e_distrito entry_braga_5 = str_upper utc ''Braga''"
  by code_simp

lemma braga_5_county: "e_concelho entry_braga_5 = ''BRAGA''"
  by (simp add: entry_braga_5_def)

lemma twice_selected:
  "filter (\<lambda>en'. strptime_dmY (e_data en') = Some (midnight 2021 1 1)
                 \<and> e_concelho en' = ''BRAGA''
                 \<and> e_distrito en' = str_upper utc ''Braga'') (json response_twice)
   = [entry_braga_5, entry_braga_10]"
  by code_simp

lemma braga_5_cases: "e_confirmados_1 entry_braga_5 = 5"
  by (simp add: entry_braga_5_def)

lemma braga_10_cases: "e_confirmados_1 entry_braga_10 = 10"
  by (simp add: entry_braga_10_def)

lemma new_year_text: "iso_date (midnight 2021 1 1) = ''2021-01-01''"
  by code_simp

lemma year_2021_order: "midnight 2021 1 1 \<le> midnight 2021 12 31"
  by code_simp

text \<open>
  Two entries of BRAGA on 2021-01-01, with 5 and 10 cases.
\<close>

theorem duplicates_are_averaged_witness:
  "fst (getInfo utc response_twice app_three True ''Braga'') = None
   \<and> (\<exists>ser. data (snd (getInfo utc response_twice app_three True ''Braga'')) ''BRAGA'' = Some ser
         \<and> (''2021-01-01'', Val (15 / 2)) \<in> set ser)"
proof -
  have lo: "midnight 2021 1 1 \<le> midnight 2021 1 1" by simp
  from duplicates_are_averaged
         [OF twice_status app_three_start app_three_end twice_dates app_three_lo app_three_hi
             twice_member braga_5_date braga_5_district lo year_2021_order, of True]
  show ?thesis
    by (simp add: braga_5_county twice_selected braga_5_cases braga_10_cases new_year_text)
qed

text \<open>
  Claim C7 as stated asks for a failure on two entries of one county and date; the
  program stores their mean.
\<close>

theorem duplicate_entries_give_their_mean:
  "(fst (getInfo utc response_twice app_three True ''Braga''),
    data (snd (getInfo utc response_twice app_three True ''Braga'')) ''BRAGA'')
   = (None, Some [(''2021-01-01'', Val (15 / 2))])"
  by code_simp

lemma empty_status: "status_code response_empty = 200"
  by (simp add: response_empty_def)

lemma empty_json: "json response_empty = []"
  by (simp add: response_empty_def)

lemma beja_status: "status_code response_beja = 200"
  by (simp add: response_beja_def)

lemma beja_json: "json response_beja = [entry_beja]"
  by (simp add: response_beja_def)

lemma beja_dates:
  "those (map (\<lambda>en. strptime_dmY (e_data en)) (json response_beja)) = Some [midnight 2021 1 3]"
  by code_simp

lemma beja_district: "e_distrito entry_beja \<noteq> str_upper utc ''Braga''"
  by code_simp

text \<open>
  An answer with no entry, and an answer whose only entry is of another district.
\<close>

theorem build_without_matching_entries_witness:
  "fst (getInfo utc response_empty app_three True ''Braga'') = Some (KeyError ''data'')
   \<and> fst (getInfo utc response_beja app_three True ''Braga'') = None
   \<and> data (snd (getInfo utc response_beja app_three True ''Braga'')) = Map.empty"
proof -
  from build_without_matching_entries
         [OF empty_status app_three_start app_three_end,
          where e = utc and distr = "''Braga''" and save_json = True]
  have a: "fst (getInfo utc response_empty app_three True ''Braga'') = Some (KeyError ''data'')"
    by (simp add: empty_json)
  have no: "\<forall>en \<in> set (json response_beja). \<forall>t. strptime_dmY (e_data en) = Some t \<longrightarrow>
              \<not> (e_distrito en = str_upper utc ''Braga''
                 \<and> midnight 2021 1 1 \<le> t \<and> t \<le> midnight 2021 12 31)"
    using beja_district by (simp add: beja_json)
  have ne: "json response_beja \<noteq> []" by (simp add: beja_json)
  from build_without_matching_entries
         [OF beja_status app_three_start app_three_end,
          where ts = "[midnight 2021 1 3]" and e = utc and lo = "midnight 2021 1 1"
            and hi = "midnight 2021 12 31" and distr = "''Braga''" and save_json = True]
       ne beja_dates app_three_lo app_three_hi no
  have "fst (getInfo utc response_beja app_three True ''Braga'') = None
      \<and> data (snd (getInfo utc response_beja app_three True ''Braga'')) = Map.empty"
    by blast
  with a show ?thesis by simp
qed

text \<open>
  Claim C8 as stated asks for a failure whenever no entry matches; with an entry of
  another district the program raises nothing and stores no county.
\<close>

theorem entries_of_another_district_build_empty_store:
  "(fst (getInfo utc response_beja app_three True ''Braga''),
    data (snd (getInfo utc response_beja app_three True ''Braga'')) ''BEJA'',
    data (snd (getInfo utc response_beja app_three True ''Braga'')) ''BRAGA'')
   = (None, None, None)"
  by code_simp

end
